theory Spec2Isabelle
  imports Complex_Main
begin

section \<open>The unit converter of \<^verbatim>\<open>orix/plot/crystal_map_plot.py\<close>\<close>

text \<open>
  The module-level function \<^verbatim>\<open>convert_unit(value, unit)\<close> rescales a length to a
  metric prefix that suits its magnitude. The argument \<^verbatim>\<open>value\<close> is a finite float, and
  Python floats are read as the real numbers they denote: products, quotients and
  \<^verbatim>\<open>np.log10\<close> are exact, so that what the code computes within floating tolerance is
  computed exactly here. The special values that NumPy produces (\<^verbatim>\<open>-inf\<close> for the
  logarithm of zero, \<^verbatim>\<open>nan\<close> for the logarithm of a negative number) are constructors
  of their own. Every exception that the function can raise is a value of \<open>pyerror\<close>.
\<close>

subsection \<open>Exceptions, NumPy floats and list indexing\<close>

datatype pyerror = TypeError | IndexError | OverflowError | ValueError

datatype npfloat = Finite real | PosInf | NegInf | NaN

text \<open>\<^verbatim>\<open>np.log10\<close>: a warning, no exception, on zero and on negative numbers.\<close>

definition np_log10 :: "real \<Rightarrow> npfloat" where
  "np_log10 x = (if 0 < x then Finite (log 10 x) else if x = 0 then NegInf else NaN)"

fun np_floor :: "npfloat \<Rightarrow> npfloat" where
  "np_floor (Finite r) = Finite (of_int \<lfloor>r\<rfloor>)"
| "np_floor PosInf = PosInf"
| "np_floor NegInf = NegInf"
| "np_floor NaN = NaN"

text \<open>
  Division and addition of a NumPy float and a Python int constant that is not negative
  (3 and 8 in the code).
\<close>

fun np_divide :: "npfloat \<Rightarrow> nat \<Rightarrow> npfloat" where
  "np_divide (Finite r) c =
     (if c = 0 then (if 0 < r then PosInf else if r < 0 then NegInf else NaN)
      else Finite (r / of_nat c))"
| "np_divide PosInf c = PosInf"
| "np_divide NegInf c = NegInf"
| "np_divide NaN c = NaN"

fun np_add :: "npfloat \<Rightarrow> nat \<Rightarrow> npfloat" where
  "np_add (Finite r) c = Finite (r + of_nat c)"
| "np_add PosInf c = PosInf"
| "np_add NegInf c = NegInf"
| "np_add NaN c = NaN"

text \<open>
  \<^verbatim>\<open>int(x)\<close> truncates towards zero; it raises \<^verbatim>\<open>OverflowError\<close> on an infinity and
  \<^verbatim>\<open>ValueError\<close> on \<^verbatim>\<open>nan\<close>.
\<close>

fun py_int :: "npfloat \<Rightarrow> pyerror + int" where
  "py_int (Finite r) = Inr (if 0 \<le> r then \<lfloor>r\<rfloor> else \<lceil>r\<rceil>)"
| "py_int PosInf = Inl OverflowError"
| "py_int NegInf = Inl OverflowError"
| "py_int NaN = Inl ValueError"

text \<open>
  \<^verbatim>\<open>xs[i]\<close> on a list: a negative index counts from the end, an index outside
  \<open>-len .. len - 1\<close> raises \<^verbatim>\<open>IndexError\<close>, and the index \<^verbatim>\<open>None\<close> raises
  \<^verbatim>\<open>TypeError\<close>.
\<close>

definition py_getitem :: "'a list \<Rightarrow> int \<Rightarrow> pyerror + 'a" where
  "py_getitem xs i =
     (if 0 \<le> i \<and> i < int (length xs) then Inr (xs ! nat i)
      else if - int (length xs) \<le> i \<and> i < 0 then Inr (xs ! nat (int (length xs) + i))
      else Inl IndexError)"

definition py_getitem_opt :: "'a list \<Rightarrow> nat option \<Rightarrow> pyerror + 'a" where
  "py_getitem_opt xs oi =
     (case oi of None \<Rightarrow> Inl TypeError | Some i \<Rightarrow> py_getitem xs (int i))"

text \<open>\<^verbatim>\<open>s.strip(" ")\<close> removes the spaces at both ends.\<close>

definition strip_space :: "string \<Rightarrow> string" where
  "strip_space s =
     rev (dropWhile (\<lambda>c. c = CHR '' '') (rev (dropWhile (\<lambda>c. c = CHR '' '') s)))"

text \<open>
  \<^verbatim>\<open>10 ** e\<close> for a Python int \<open>e\<close>: an int when \<open>e\<close> is not negative, the float
  \<open>1 / 10 ^ (- e)\<close> otherwise.
\<close>

definition py_pow10 :: "int \<Rightarrow> real" where
  "py_pow10 e = (if 0 \<le> e then 10 ^ nat e else 1 / 10 ^ nat (- e))"

subsection \<open>\<^verbatim>\<open>convert_unit\<close>\<close>

definition letters :: string where
  "letters = ''yzafpnum kMGTPEZY''"

text \<open>
  One round of the loop \<^verbatim>\<open>for i, letter in enumerate(letters)\<close>: the state is the
  table built so far and \<^verbatim>\<open>new_unit_idx\<close> (\<open>None\<close> until the unit is met).
\<close>

definition lookup_step ::
  "string \<Rightarrow> nat \<times> char \<Rightarrow> (string \<times> real) list \<times> nat option
     \<Rightarrow> (string \<times> real) list \<times> nat option" where
  "lookup_step unit = (\<lambda>(i, letter) (lookup_table, new_unit_idx).
     let current_unit = strip_space (letter # ''m'')
     in (lookup_table @ [(current_unit, py_pow10 (3 * int i - 24))],
         if unit = current_unit then Some i else new_unit_idx))"

definition build_lookup :: "string \<Rightarrow> (string \<times> real) list \<times> nat option" where
  "build_lookup unit = fold (lookup_step unit) (enumerate 0 letters) ([], None)"

text \<open>
  The index of the most suitable unit, computed from the value in metres:
  \<^verbatim>\<open>power_of_value = np.floor(np.log10(value_in_metres))\<close> and
  \<^verbatim>\<open>suitable_unit_idx = int(np.floor(power_of_value / 3) + 8)\<close>.
\<close>

definition suitable_unit_idx :: "real \<Rightarrow> pyerror + int" where
  "suitable_unit_idx value_in_metres =
     (let power_of_value = np_floor (np_log10 value_in_metres)
      in py_int (np_add (np_floor (np_divide power_of_value 3)) 8))"

text \<open>The result is \<open>(new_value, new_unit, factor)\<close>.\<close>

definition convert_unit :: "real \<Rightarrow> string \<Rightarrow> pyerror + (real \<times> string \<times> real)" where
  "convert_unit value unit0 =
     (let unit_is_px = (unit0 = ''px'');
          unit = (if unit_is_px then ''um'' else unit0);
          (lookup_table, new_unit_idx) = build_lookup unit
      in case py_getitem_opt lookup_table new_unit_idx of
           Inl e \<Rightarrow> Inl e
         | Inr old_entry \<Rightarrow>
             (let value_in_metres = value * snd old_entry
              in case suitable_unit_idx value_in_metres of
                   Inl e \<Rightarrow> Inl e
                 | Inr idx \<Rightarrow>
                     (case py_getitem lookup_table idx of
                        Inl e \<Rightarrow> Inl e
                      | Inr new_entry \<Rightarrow>
                          Inr (value_in_metres / snd new_entry,
                               if unit_is_px then ''px'' else fst new_entry,
                               snd new_entry / snd old_entry))))"

subsection \<open>The table and its units\<close>

text \<open>
  The table that the loop builds does not depend on the unit; \<open>prefix_table\<close> names it,
  and a unit is recognized when it is the name of one of its entries.
\<close>

definition prefix_table :: "(string \<times> real) list" where
  "prefix_table =
     map (\<lambda>(i, letter). (strip_space (letter # ''m''), py_pow10 (3 * int i - 24)))
       (enumerate 0 letters)"

definition recognized :: "string \<Rightarrow> bool" where
  "recognized unit \<longleftrightarrow> unit \<in> fst ` set prefix_table"

section \<open>The scalebar of \<^verbatim>\<open>CrystalMapPlot.add_scalebar\<close>\<close>

text \<open>
  \<^verbatim>\<open>add_scalebar\<close> reads three things from the crystal map: the map width
  \<^verbatim>\<open>shape[-1]\<close>, the step size \<^verbatim>\<open>_step_sizes["x"]\<close> and \<^verbatim>\<open>scan_unit\<close>. The
  Matplotlib calls (\<^verbatim>\<open>AnchoredSizeBar\<close>, \<^verbatim>\<open>add_artist\<close>, the keyword defaults) are
  not modelled: the scalebar returned is the record of what the function computes for it,
  namely the size in pixels and the two parts of the label
  \<^verbatim>\<open>str(scalebar_width) + " " + scan_unit\<close>. A call of \<^verbatim>\<open>warnings.warn\<close>, under
  the default warning filter, appends to the list of warnings returned beside the scalebar
  and does not stop the call.
\<close>

record crystal_map =
  shape :: "nat \<times> nat"
  step_size_x :: real
  scan_unit :: string

datatype pywarning = UserWarning real

text \<open>After the integrality test the width is a Python int or still a float.\<close>

datatype pynumber = PyInt int | PyFloat real

record scalebar =
  size_px :: npfloat
  label_width :: pynumber
  label_unit :: string

definition good_values :: "int list" where
  "good_values = [1, 2, 5, 10, 15, 20, 25, 50, 75, 100, 125, 150, 200, 500, 750]"

text \<open>\<^verbatim>\<open>np.where(mask)[0]\<close>: the indices at which the mask holds, in order.\<close>

definition np_where :: "bool list \<Rightarrow> int list" where
  "np_where bs = map int (filter (\<lambda>i. bs ! i) [0..<length bs])"

text \<open>
  \<^verbatim>\<open>difference = abs(scalebar_width - good_values)\<close> and
  \<^verbatim>\<open>good_value_idx = np.where(difference == difference.min())[0][0]\<close>.
\<close>

definition good_value_idx :: "real \<Rightarrow> pyerror + int" where
  "good_value_idx scalebar_width =
     (let difference = map (\<lambda>g. \<bar>scalebar_width - real_of_int g\<bar>) good_values
      in py_getitem (np_where (map (\<lambda>d. d = Min (set difference)) difference)) 0)"

text \<open>
  Division of a NumPy float by a Python float: by zero it gives an infinity or
  \<^verbatim>\<open>nan\<close> and a warning, not an exception.
\<close>

definition np_true_divide :: "real \<Rightarrow> real \<Rightarrow> npfloat" where
  "np_true_divide x y =
     (if y \<noteq> 0 then Finite (x / y)
      else if 0 < x then PosInf else if x < 0 then NegInf else NaN)"

definition is_integer :: "real \<Rightarrow> bool" where
  "is_integer x \<longleftrightarrow> real_of_int \<lfloor>x\<rfloor> = x"

text \<open>
  The unit \<^verbatim>\<open>um\<close> is shown with the letter mu, U+03BC, here its two bytes in UTF-8.
\<close>

definition add_scalebar :: "crystal_map \<Rightarrow> pyerror + (scalebar \<times> pywarning list)" where
  "add_scalebar cm =
     (let map_width = snd (shape cm);
          step_size = step_size_x cm
      in case convert_unit (0.1 * real map_width * step_size) (scan_unit cm) of
           Inl e \<Rightarrow> Inl e
         | Inr (initial_width, new_unit, factor) \<Rightarrow>
             (case good_value_idx initial_width of
                Inl e \<Rightarrow> Inl e
              | Inr idx \<Rightarrow>
                  (case py_getitem good_values idx of
                     Inl e \<Rightarrow> Inl e
                   | Inr good_value \<Rightarrow>
                       (let scalebar_width = real_of_int good_value * factor;
                            scalebar_width_px = np_true_divide scalebar_width step_size;
                            (label, warnings) =
                              (if is_integer scalebar_width
                               then (PyInt \<lfloor>scalebar_width\<rfloor>, [])
                               else (PyFloat scalebar_width, [UserWarning scalebar_width]));
                            unit = (if new_unit = ''um''
                                    then [CHR 0xCE, CHR 0xBC, CHR ''m''] else new_unit)
                        in Inr (\<lparr>size_px = scalebar_width_px, label_width = label,
                                  label_unit = unit\<rparr>, warnings)))))"

section \<open>Orientations and \<^verbatim>\<open>set_symmetry\<close>\<close>

text \<open>
  \<^verbatim>\<open>tests/test_orientation.py\<close> exercises \<^verbatim>\<open>Orientation.set_symmetry\<close> of the package
  \<^verbatim>\<open>texpy.quaternion\<close>, whose modules are not among the source files. The definitions of
  this section follow the specification's description of the data model and of the
  orientation reduction engine instead.
\<close>

text \<open>
  Modelled from the spec: a rotation (missing: \<^verbatim>\<open>texpy/quaternion/quaternion.py\<close>), a
  quaternion \<open>(w, x, y, z)\<close> with floats read as reals.
\<close>

type_synonym quaternion = "real \<times> real \<times> real \<times> real"

text \<open>
  Modelled from the spec: the scalar part of a quaternion (missing:
  \<^verbatim>\<open>texpy/quaternion/quaternion.py\<close>), its first component \<open>w\<close>.
\<close>

definition scalar_part :: "quaternion \<Rightarrow> real" where
  "scalar_part q = fst q"

text \<open>
  Modelled from the spec: the class \<^verbatim>\<open>Orientation\<close> (missing:
  \<^verbatim>\<open>texpy/quaternion/orientation.py\<close>), a batch of rotations tagged with a symmetry
  group, which is an ordered collection of quaternions.
\<close>

record orientation =
  data :: "quaternion list"
  symmetry :: "quaternion list"

text \<open>
  Modelled from the spec: the selection rule of the reduction (missing: the body of
  \<^verbatim>\<open>set_symmetry\<close>). Among the candidates, the one whose scalar part has the largest
  magnitude, and the one of lowest index among equals.
\<close>

fun closest_to_identity :: "quaternion list \<Rightarrow> quaternion option" where
  "closest_to_identity [] = None"
| "closest_to_identity (c # cs) =
     Some (fold (\<lambda>d best. if \<bar>scalar_part best\<bar> < \<bar>scalar_part d\<bar> then d else best) cs c)"

text \<open>
  Modelled from the spec: the reduction of one rotation (missing: the body of
  \<^verbatim>\<open>set_symmetry\<close> and the group action of \<^verbatim>\<open>texpy/quaternion/symmetry.py\<close>). The orbit
  is made of each group element composed with the rotation, in the order of the group. The
  specification gives no formula for the composition and does not say which sign
  convention normalizes the result, so both are parameters here.
\<close>

definition reduce ::
  "(quaternion \<Rightarrow> quaternion \<Rightarrow> quaternion) \<Rightarrow> (quaternion \<Rightarrow> quaternion)
     \<Rightarrow> quaternion list \<Rightarrow> quaternion \<Rightarrow> quaternion option" where
  "reduce compose canonical G q =
     map_option canonical (closest_to_identity (map (\<lambda>g. compose g q) G))"

text \<open>
  Modelled from the spec: \<^verbatim>\<open>Orientation.set_symmetry\<close> (missing:
  \<^verbatim>\<open>texpy/quaternion/orientation.py\<close>). Objects live in a store, a list indexed by
  address. The call reads the orientation at address \<open>a\<close>, reduces every rotation of its
  batch, and produces a new orientation tagged with the group: the new object is appended
  to the store and its address returned. The result is \<open>None\<close> when \<open>a\<close> is not an
  address of the store or when some orbit is empty.
\<close>

definition set_symmetry ::
  "(quaternion \<Rightarrow> quaternion \<Rightarrow> quaternion) \<Rightarrow> (quaternion \<Rightarrow> quaternion)
     \<Rightarrow> orientation list \<Rightarrow> nat \<Rightarrow> quaternion list \<Rightarrow> (nat \<times> orientation list) option" where
  "set_symmetry compose canonical heap a G =
     (if a < length heap
      then case those (map (reduce compose canonical G) (data (heap ! a))) of
             None \<Rightarrow> None
           | Some reduced \<Rightarrow>
               Some (length heap, heap @ [\<lparr>data = reduced, symmetry = G\<rparr>])
      else None)"

text \<open>
  Modelled from the spec: the composition of two rotations (missing:
  \<^verbatim>\<open>texpy/quaternion/quaternion.py\<close>). The specification names the composition and
  gives no formula; this is the product of quaternions of Hamilton, and its only use is to
  instantiate the parameter of \<open>reduce\<close> in the examples.
\<close>

definition hamilton :: "quaternion \<Rightarrow> quaternion \<Rightarrow> quaternion" where
  "hamilton p q =
     (case p of (a, b, c, d) \<Rightarrow> case q of (e, f, g, h) \<Rightarrow>
        (a * e - b * f - c * g - d * h,
         a * f + b * e + c * h - d * g,
         a * g - b * h + c * e + d * f,
         a * h + b * g - c * f + d * e))"

section \<open>Facts about the lookup table\<close>

text \<open>
  The loop builds \<open>prefix_table\<close> whatever the unit is, and finds the unit at the index of
  its name.
\<close>

lemma fold_lookup_step_fst:
  "fst (fold (lookup_step u) (enumerate n cs) (tab, idx)) =
     tab @ map (\<lambda>(i, letter). (strip_space (letter # ''m''), py_pow10 (3 * int i - 24)))
             (enumerate n cs)"
  by (induction cs arbitrary: n tab idx) (simp_all add: lookup_step_def Let_def)

lemma build_lookup_fst: "fst (build_lookup u) = prefix_table"
  by (simp add: build_lookup_def prefix_table_def fold_lookup_step_fst)

lemma length_prefix_table: "length prefix_table = 17"
  by (simp add: prefix_table_def letters_def)

lemma prefix_table_names:
  "map fst prefix_table =
     [''ym'', ''zm'', ''am'', ''fm'', ''pm'', ''nm'', ''um'', ''mm'', ''m'',
      ''km'', ''Mm'', ''Gm'', ''Tm'', ''Pm'', ''Em'', ''Zm'', ''Ym'']"
  by (simp add: prefix_table_def letters_def strip_space_def)

lemma prefix_table_snd:
  "i < 17 \<Longrightarrow> snd (prefix_table ! i) = py_pow10 (3 * int i - 24)"
proof -
  assume "i < 17"
  moreover have "length letters = 17" by (simp add: letters_def)
  ultimately show ?thesis
    by (simp add: prefix_table_def nth_enumerate_eq split_beta)
qed

lemma build_lookup_snd:
  "snd (build_lookup u) =
     (if u = ''Ym'' then Some 16 else if u = ''Zm'' then Some 15
      else if u = ''Em'' then Some 14 else if u = ''Pm'' then Some 13
      else if u = ''Tm'' then Some 12 else if u = ''Gm'' then Some 11
      else if u = ''Mm'' then Some 10 else if u = ''km'' then Some 9
      else if u = ''m'' then Some 8 else if u = ''mm'' then Some 7
      else if u = ''um'' then Some 6 else if u = ''nm'' then Some 5
      else if u = ''pm'' then Some 4 else if u = ''fm'' then Some 3
      else if u = ''am'' then Some 2 else if u = ''zm'' then Some 1
      else if u = ''ym'' then Some 0 else None)"
  by (simp add: build_lookup_def letters_def lookup_step_def strip_space_def Let_def)

lemma recognized_iff:
  "recognized u \<longleftrightarrow>
     u \<in> {''ym'', ''zm'', ''am'', ''fm'', ''pm'', ''nm'', ''um'', ''mm'', ''m'',
          ''km'', ''Mm'', ''Gm'', ''Tm'', ''Pm'', ''Em'', ''Zm'', ''Ym''}"
  unfolding recognized_def set_map[symmetric] prefix_table_names by simp

lemma not_recognized_None: "\<not> recognized u \<Longrightarrow> snd (build_lookup u) = None"
  by (simp add: recognized_iff build_lookup_snd)

lemma recognized_Some:
  assumes "recognized u"
  shows "\<exists>i<17. snd (build_lookup u) = Some i \<and> fst (prefix_table ! i) = u"
proof -
  have nm: "\<And>i. i < 17 \<Longrightarrow> fst (prefix_table ! i) = map fst prefix_table ! i"
    by (simp add: length_prefix_table)
  from assms have "u \<in> {''ym'', ''zm'', ''am'', ''fm'', ''pm'', ''nm'', ''um'', ''mm'', ''m'',
          ''km'', ''Mm'', ''Gm'', ''Tm'', ''Pm'', ''Em'', ''Zm'', ''Ym''}"
    by (simp only: recognized_iff)
  then show ?thesis
    by (elim insertE emptyE) (simp_all add: build_lookup_snd nm prefix_table_names)
qed

subsection \<open>Powers of ten and the floor of the logarithm\<close>

lemma py_pow10_powr: "py_pow10 k = 10 powr (of_int k)"
  by (simp add: py_pow10_def powr_real_of_int inverse_eq_divide)

lemma floor_log10_eq:
  "0 < x \<Longrightarrow> py_pow10 k \<le> x \<Longrightarrow> x < py_pow10 (k + 1) \<Longrightarrow> \<lfloor>log 10 x\<rfloor> = k"
  by (simp add: floor_log_eq_powr_iff py_pow10_powr)

lemma floor_log10_bounds:
  "0 < x \<Longrightarrow> py_pow10 \<lfloor>log 10 x\<rfloor> \<le> x \<and> x < py_pow10 (\<lfloor>log 10 x\<rfloor> + 1)"
  using floor_log_eq_powr_iff [of x 10 "\<lfloor>log 10 x\<rfloor>"] by (simp add: py_pow10_powr)

lemma py_pow10_mono: "a \<le> b \<Longrightarrow> py_pow10 a \<le> py_pow10 b"
  by (simp add: py_pow10_powr)

lemma py_pow10_less: "py_pow10 a < py_pow10 b \<longleftrightarrow> a < b"
  by (simp add: py_pow10_powr)

lemma py_pow10_add: "py_pow10 (a + b) = py_pow10 a * py_pow10 b"
  by (simp add: py_pow10_powr powr_add)

lemma py_pow10_pos: "0 < py_pow10 a"
  by (simp add: py_pow10_powr)

subsection \<open>Units and multipliers\<close>

lemma distinct_prefix_names: "distinct (map fst prefix_table)"
  unfolding prefix_table_names by simp

lemma map_of_prefix_table:
  assumes "map_of prefix_table u = Some m"
  shows "\<exists>i<17. snd (build_lookup u) = Some i \<and> prefix_table ! i = (u, m)"
proof -
  from assms have mem: "(u, m) \<in> set prefix_table" by (rule map_of_SomeD)
  then have "recognized u" unfolding recognized_def by force
  then obtain i where i: "i < 17" "snd (build_lookup u) = Some i" "fst (prefix_table ! i) = u"
    using recognized_Some by blast
  from i(1) have "prefix_table ! i \<in> set prefix_table"
    by (simp add: length_prefix_table)
  with i(3) have "(u, snd (prefix_table ! i)) \<in> set prefix_table"
    by (metis prod.collapse)
  with mem have "snd (prefix_table ! i) = m"
    using distinct_prefix_names by (meson eq_key_imp_eq_value)
  with i show ?thesis by (metis prod.collapse)
qed

lemma map_of_prefix_table_pow:
  assumes "map_of prefix_table u = Some m"
  shows "\<exists>i<17. m = py_pow10 (3 * int i - 24)"
  using map_of_prefix_table [OF assms] prefix_table_snd by (metis snd_conv)

lemma recognized_map_of: "recognized u \<longleftrightarrow> map_of prefix_table u \<noteq> None"
  by (simp add: recognized_def map_of_eq_None_iff)

subsection \<open>\<^verbatim>\<open>convert_unit\<close> in closed form\<close>

text \<open>
  When the value in metres lies in \<open>[10^p, 10^(p + 1))\<close>, the index is \<open>p div 3 + 8\<close>.
\<close>

lemma suitable_unit_idx_eq:
  assumes "py_pow10 p \<le> vm" "vm < py_pow10 (p + 1)"
  shows "suitable_unit_idx vm = Inr (p div 3 + 8)"
proof -
  have pos: "0 < vm" using assms(1) py_pow10_pos [of p] by linarith
  have fl: "\<lfloor>log 10 vm\<rfloor> = p" using pos assms by (rule floor_log10_eq)
  have d: "\<lfloor>real_of_int p / 3\<rfloor> = p div 3"
    using floor_divide_of_int_eq [of p 3, where ?'a = real] by simp
  have "real_of_int (p div 3) + 8 = real_of_int (p div 3 + 8)" by simp
  then show ?thesis
    unfolding suitable_unit_idx_def np_log10_def Let_def using pos fl d
    by (simp del: of_int_add)
qed

lemma suitable_unit_idx_zero: "suitable_unit_idx 0 = Inl OverflowError"
  by (simp add: suitable_unit_idx_def np_log10_def)

lemma suitable_unit_idx_neg: "vm < 0 \<Longrightarrow> suitable_unit_idx vm = Inl ValueError"
  by (simp add: suitable_unit_idx_def np_log10_def)

lemma py_getitem_prefix_table:
  "py_getitem prefix_table idx =
     (if 0 \<le> idx \<and> idx < 17 then Inr (prefix_table ! nat idx)
      else if - 17 \<le> idx \<and> idx < 0 then Inr (prefix_table ! nat (17 + idx))
      else Inl IndexError)"
  by (simp add: py_getitem_def length_prefix_table)

lemma convert_unit_table:
  assumes "map_of prefix_table u = Some m"
  shows "convert_unit v u =
           (case suitable_unit_idx (v * m) of
              Inl e \<Rightarrow> Inl e
            | Inr idx \<Rightarrow>
                (case py_getitem prefix_table idx of
                   Inl e \<Rightarrow> Inl e
                 | Inr new_entry \<Rightarrow> Inr (v * m / snd new_entry, fst new_entry, snd new_entry / m)))"
proof -
  obtain i where i: "i < 17" "snd (build_lookup u) = Some i" "prefix_table ! i = (u, m)"
    using map_of_prefix_table [OF assms] by blast
  have npx: "u \<noteq> ''px''" using assms recognized_map_of [of u] by (auto simp: recognized_iff)
  have bl: "build_lookup u = (prefix_table, Some i)"
    using i(2) build_lookup_fst [of u] by (metis prod.collapse)
  have g: "py_getitem_opt prefix_table (Some i) = Inr (u, m)"
    using i by (simp add: py_getitem_opt_def py_getitem_def length_prefix_table)
  show ?thesis
    unfolding convert_unit_def using npx by (simp add: bl g Let_def split: sum.splits)
qed

lemma convert_unit_unrecognized:
  assumes "\<not> recognized u" "u \<noteq> ''px''"
  shows "convert_unit v u = Inl TypeError"
proof -
  have bl: "build_lookup u = (prefix_table, None)"
    using not_recognized_None [OF assms(1)] build_lookup_fst [of u] by (metis prod.collapse)
  show ?thesis unfolding convert_unit_def using assms(2)
    by (simp add: bl py_getitem_opt_def)
qed

lemma prefix_table_nth:
  "i < 17 \<Longrightarrow> prefix_table ! i = (map fst prefix_table ! i, py_pow10 (3 * int i - 24))"
  using prefix_table_snd [of i] by (simp add: length_prefix_table prod_eq_iff)

lemma map_of_prefix_nth:
  "i < 17 \<Longrightarrow> map_of prefix_table (map fst prefix_table ! i) = Some (py_pow10 (3 * int i - 24))"
  using distinct_prefix_names prefix_table_nth [of i]
  by (metis length_prefix_table map_of_eq_Some_iff nth_mem)

lemma map_of_um: "map_of prefix_table ''um'' = Some (py_pow10 (- 6))"
  using map_of_prefix_nth [of 6] by (simp add: prefix_table_names)

lemma convert_unit_px_um:
  "convert_unit v ''px'' =
     map_sum id (\<lambda>(new_value, new_unit, factor). (new_value, ''px'', factor))
       (convert_unit v ''um'')"
  unfolding convert_unit_def by (simp add: Let_def split: prod.splits sum.splits)

lemma convert_unit_at:
  assumes "map_of prefix_table u = Some m" "py_pow10 p \<le> v * m" "v * m < py_pow10 (p + 1)"
  shows "convert_unit v u =
           (case py_getitem prefix_table (p div 3 + 8) of
              Inl e \<Rightarrow> Inl e
            | Inr new_entry \<Rightarrow> Inr (v * m / snd new_entry, fst new_entry, snd new_entry / m))"
  by (simp add: convert_unit_table [OF assms(1)] suitable_unit_idx_eq [OF assms(2,3)])

lemma map_of_m: "map_of prefix_table ''m'' = Some 1"
  using map_of_prefix_nth [of 8] by (simp add: prefix_table_names py_pow10_def)

lemma map_of_nm: "map_of prefix_table ''nm'' = Some (1 / 10 ^ 9)"
  using map_of_prefix_nth [of 5] by (simp add: prefix_table_names py_pow10_def)

lemmas table_eval = py_getitem_prefix_table prefix_table_nth prefix_table_names py_pow10_def

lemma py_getitem_prefix_table_Inr:
  assumes "- 17 \<le> idx" "idx < 17"
  shows "\<exists>j<17. py_getitem prefix_table idx = Inr (prefix_table ! j)"
proof (cases "0 \<le> idx")
  case True
  with assms have "nat idx < 17" "py_getitem prefix_table idx = Inr (prefix_table ! nat idx)"
    by (simp_all add: py_getitem_prefix_table)
  then show ?thesis by blast
next
  case False
  with assms have "nat (17 + idx) < 17"
    "py_getitem prefix_table idx = Inr (prefix_table ! nat (17 + idx))"
    by (simp_all add: py_getitem_prefix_table)
  then show ?thesis by blast
qed

lemma floor_log10_range:
  assumes "py_pow10 a \<le> x" "x < py_pow10 b"
  shows "a \<le> \<lfloor>log 10 x\<rfloor> \<and> \<lfloor>log 10 x\<rfloor> < b"
proof -
  have pos: "0 < x" using assms(1) py_pow10_pos [of a] by linarith
  note bd = floor_log10_bounds [OF pos]
  have "py_pow10 a < py_pow10 (\<lfloor>log 10 x\<rfloor> + 1)" using assms(1) bd by linarith
  moreover have "py_pow10 \<lfloor>log 10 x\<rfloor> < py_pow10 b" using assms(2) bd by linarith
  ultimately show ?thesis by (simp add: py_pow10_less)
qed

lemma map_of_mm: "map_of prefix_table ''mm'' = Some (1 / 10 ^ 3)"
  using map_of_prefix_nth [of 7] by (simp add: prefix_table_names py_pow10_def)

lemma convert_unit_nonpositive:
  assumes "map_of prefix_table u = Some m" "v \<le> 0"
  shows "convert_unit v u = Inl (if v = 0 then OverflowError else ValueError)"
proof -
  have mpos: "0 < m" using map_of_prefix_table_pow [OF assms(1)] py_pow10_pos by auto
  show ?thesis
  proof (cases "v = 0")
    case True
    then show ?thesis
      by (simp add: convert_unit_table [OF assms(1)] suitable_unit_idx_zero)
  next
    case False
    with assms(2) mpos have "v * m < 0" by (simp add: mult_less_0_iff)
    with False show ?thesis
      by (simp add: convert_unit_table [OF assms(1)] suitable_unit_idx_neg)
  qed
qed

lemma convert_unit_out_of_range:
  assumes "map_of prefix_table u = Some m" "0 < v"
    and "v * m < py_pow10 (- 75) \<or> py_pow10 27 \<le> v * m"
  shows "convert_unit v u = Inl IndexError"
proof -
  define p where "p = \<lfloor>log 10 (v * m)\<rfloor>"
  have mpos: "0 < m" using map_of_prefix_table_pow [OF assms(1)] py_pow10_pos by auto
  have pos: "0 < v * m" using assms(2) mpos by simp
  have bd: "py_pow10 p \<le> v * m" "v * m < py_pow10 (p + 1)"
    using floor_log10_bounds [OF pos] by (simp_all add: p_def)
  from assms(3) have "p < - 75 \<or> 27 \<le> p"
  proof
    assume "v * m < py_pow10 (- 75)"
    with bd(1) have "py_pow10 p < py_pow10 (- 75)" by linarith
    then show ?thesis by (simp add: py_pow10_less)
  next
    assume "py_pow10 27 \<le> v * m"
    with bd(2) have "py_pow10 27 < py_pow10 (p + 1)" by linarith
    then show ?thesis by (simp add: py_pow10_less)
  qed
  then have "p div 3 + 8 < - 17 \<or> 17 \<le> p div 3 + 8" by linarith
  then have "py_getitem prefix_table (p div 3 + 8) = Inl IndexError"
    by (auto simp: py_getitem_prefix_table)
  then show ?thesis by (simp add: convert_unit_at [OF assms(1) bd])
qed

text \<open>
  Below the range of the table the index is negative and, down to \<open>10^-75\<close> metres, Python
  reads the entry from the end of the table: the call returns, with a value below 1.
\<close>

lemma convert_unit_below_table:
  assumes "map_of prefix_table u = Some m"
    and "py_pow10 (- 75) \<le> v * m" and "v * m < py_pow10 (- 24)"
  shows "\<exists>idx new_value new_unit factor.
           suitable_unit_idx (v * m) = Inr idx \<and> - 17 \<le> idx \<and> idx < 0 \<and>
           convert_unit v u = Inr (new_value, new_unit, factor) \<and>
           new_unit = fst (prefix_table ! nat (17 + idx)) \<and> new_value < 1"
proof -
  define p where "p = \<lfloor>log 10 (v * m)\<rfloor>"
  define k where "k = p div 3 + 8"
  have pos: "0 < v * m" using assms(2) py_pow10_pos [of "- 75"] by linarith
  have bd: "py_pow10 p \<le> v * m" "v * m < py_pow10 (p + 1)"
    using floor_log10_bounds [OF pos] by (simp_all add: p_def)
  have rg: "- 75 \<le> p" "p < - 24"
    using floor_log10_range [OF assms(2,3)] by (simp_all add: p_def)
  have krg: "- 17 \<le> k" "k < 0" using rg unfolding k_def by linarith+
  then have j: "nat (17 + k) < 17" by linarith
  have sm: "snd (prefix_table ! nat (17 + k)) = py_pow10 (3 * k + 27)"
    using prefix_table_snd [OF j] krg by (simp add: algebra_simps)
  have gi: "py_getitem prefix_table k = Inr (prefix_table ! nat (17 + k))"
    using krg by (simp add: py_getitem_prefix_table)
  have si: "suitable_unit_idx (v * m) = Inr k"
    using suitable_unit_idx_eq [OF bd] by (simp add: k_def)
  have cu: "convert_unit v u =
              Inr (v * m / py_pow10 (3 * k + 27), fst (prefix_table ! nat (17 + k)),
                   py_pow10 (3 * k + 27) / m)"
    using convert_unit_at [OF assms(1) bd] by (simp add: k_def [symmetric] gi sm)
  have "- 24 \<le> 3 * k + 27" using krg by linarith
  then have "py_pow10 (- 24) \<le> py_pow10 (3 * k + 27)" by (rule py_pow10_mono)
  with assms(3) have "v * m < py_pow10 (3 * k + 27)" by linarith
  then have "v * m / py_pow10 (3 * k + 27) < 1"
    using py_pow10_pos [of "3 * k + 27"] by (simp add: divide_less_eq)
  with si krg cu show ?thesis by blast
qed

section \<open>Properties of the unit converter\<close>

text \<open>
  Throughout, \<open>map_of prefix_table u = Some m\<close> says that \<open>u\<close> is one of the 17 unit
  names of the table and that \<open>m\<close> is its multiplier, so that \<open>v * m\<close> is the value in
  metres.
\<close>

text \<open>
  Claim C1, as stated: for every positive value and every recognized unit the call returns
  a triple with \<open>new_value * factor = value\<close>. It does not return for 2 000 000 Ym, which
  is \<open>2 * 10 ^ 30\<close> metres: the index computed is 18 and the table has 17 entries.
\<close>

theorem convert_unit_round_trip_counterexample:
  "(0::real) < 2 * 10 ^ 6 \<and> recognized ''Ym'' \<and>
   convert_unit (2 * 10 ^ 6) ''Ym'' = Inl IndexError"
proof -
  have ym: "map_of prefix_table ''Ym'' = Some (10 ^ 24)"
    using map_of_prefix_nth [of 16] by (simp add: prefix_table_names py_pow10_def)
  have "convert_unit (2 * 10 ^ 6) ''Ym'' =
          (case py_getitem prefix_table (30 div 3 + 8) of
             Inl e \<Rightarrow> Inl e
           | Inr new_entry \<Rightarrow>
               Inr (2 * 10 ^ 6 * 10 ^ 24 / snd new_entry, fst new_entry,
                    snd new_entry / 10 ^ 24))"
    by (rule convert_unit_at [OF ym]) (simp_all add: py_pow10_def)
  then show ?thesis by (simp add: table_eval recognized_iff)
qed

text \<open>
  Claim C1, amended: for every value in a recognized unit whose magnitude in metres lies
  within the range of the table, \<open>[10^-24, 10^27)\<close>, the call returns
  \<open>(new_value, new_unit, factor)\<close> where \<open>new_unit\<close> is a unit of the table, \<open>factor\<close>
  is the multiplier of \<open>new_unit\<close> divided by the multiplier of the input unit, and
  \<open>new_value * factor = value\<close>.
\<close>

theorem convert_unit_round_trip:
  assumes "map_of prefix_table u = Some m"
    and "py_pow10 (- 24) \<le> v * m" and "v * m < py_pow10 27"
  shows "\<exists>new_value new_unit factor m'.
           convert_unit v u = Inr (new_value, new_unit, factor) \<and>
           map_of prefix_table new_unit = Some m' \<and>
           factor = m' / m \<and> new_value * factor = v"
proof -
  define p where "p = \<lfloor>log 10 (v * m)\<rfloor>"
  have pos: "0 < v * m" using assms(2) py_pow10_pos [of "- 24"] by linarith
  have bd: "py_pow10 p \<le> v * m" "v * m < py_pow10 (p + 1)"
    using floor_log10_bounds [OF pos] by (simp_all add: p_def)
  have rg: "- 24 \<le> p" "p < 27"
    using floor_log10_range [OF assms(2,3)] by (simp_all add: p_def)
  then have "- 17 \<le> p div 3 + 8" "p div 3 + 8 < 17" by linarith+
  then obtain j where j: "j < 17" "py_getitem prefix_table (p div 3 + 8) = Inr (prefix_table ! j)"
    using py_getitem_prefix_table_Inr by blast
  define m' where "m' = py_pow10 (3 * int j - 24)"
  have ent: "prefix_table ! j = (map fst prefix_table ! j, m')"
    using prefix_table_nth [OF j(1)] by (simp add: m'_def)
  have mo: "map_of prefix_table (map fst prefix_table ! j) = Some m'"
    using map_of_prefix_nth [OF j(1)] by (simp add: m'_def)
  have m'pos: "0 < m'" by (simp add: m'_def py_pow10_pos)
  have mpos: "0 < m" using map_of_prefix_table_pow [OF assms(1)] py_pow10_pos by auto
  have cu: "convert_unit v u = Inr (v * m / m', map fst prefix_table ! j, m' / m)"
    by (simp add: convert_unit_at [OF assms(1) bd] j(2) ent)
  have "v * m / m' * (m' / m) = v" using m'pos mpos by simp
  with cu mo show ?thesis by blast
qed

text \<open>The amended claim C1 at 2500 mm, which become 2.5 m with factor 1000.\<close>

theorem convert_unit_round_trip_witness:
  "map_of prefix_table ''mm'' = Some (1 / 10 ^ 3) \<and>
   py_pow10 (- 24) \<le> 2500 * (1 / 10 ^ 3) \<and> 2500 * (1 / 10 ^ 3) < py_pow10 27 \<and>
   (\<exists>new_value new_unit factor m'.
      convert_unit 2500 ''mm'' = Inr (new_value, new_unit, factor) \<and>
      map_of prefix_table new_unit = Some m' \<and>
      factor = m' / (1 / 10 ^ 3) \<and> new_value * factor = 2500)"
proof -
  have h2: "py_pow10 (- 24) \<le> 2500 * (1 / 10 ^ 3)" by (simp add: py_pow10_def)
  have h3: "2500 * (1 / 10 ^ 3) < py_pow10 27" by (simp add: py_pow10_def)
  from convert_unit_round_trip [OF map_of_mm h2 h3] map_of_mm h2 h3
  show ?thesis by blast
qed

text \<open>
  Claim C2: for every value in a recognized unit whose magnitude in metres lies in the
  range of the table, \<open>[10^-24, 10^27)\<close>, the index that \<^verbatim>\<open>convert_unit\<close> selects is
  \<open>floor (floor (log10 value_in_metres) / 3) + 8\<close>, it is an index of the table, the
  result is taken from that entry, and \<open>new_value\<close> lies in \<open>[1, 1000)\<close>.
\<close>

theorem convert_unit_in_table_range:
  assumes "map_of prefix_table u = Some m"
    and "py_pow10 (- 24) \<le> v * m" and "v * m < py_pow10 27"
  shows "let idx = \<lfloor>real_of_int \<lfloor>log 10 (v * m)\<rfloor> / 3\<rfloor> + 8;
             new_entry = prefix_table ! nat idx
         in 0 \<le> idx \<and> idx < 17 \<and> suitable_unit_idx (v * m) = Inr idx \<and>
            convert_unit v u = Inr (v * m / snd new_entry, fst new_entry, snd new_entry / m) \<and>
            1 \<le> v * m / snd new_entry \<and> v * m / snd new_entry < 1000"
proof -
  define p where "p = \<lfloor>log 10 (v * m)\<rfloor>"
  define k where "k = p div 3"
  have pos: "0 < v * m" using assms(2) py_pow10_pos [of "- 24"] by linarith
  have bd: "py_pow10 p \<le> v * m" "v * m < py_pow10 (p + 1)"
    using floor_log10_bounds [OF pos] by (simp_all add: p_def)
  have rg: "- 24 \<le> p" "p < 27"
    using floor_log10_range [OF assms(2,3)] by (simp_all add: p_def)
  have fl: "\<lfloor>real_of_int p / 3\<rfloor> = k"
    using floor_divide_of_int_eq [of p 3, where ?'a = real] by (simp add: k_def)
  have krg: "0 \<le> k + 8" "k + 8 < 17" using rg unfolding k_def by linarith+
  then have j: "nat (k + 8) < 17" by linarith
  have sm: "snd (prefix_table ! nat (k + 8)) = py_pow10 (3 * k)"
    using prefix_table_snd [OF j] krg by (simp add: algebra_simps)
  have gi: "py_getitem prefix_table (k + 8) = Inr (prefix_table ! nat (k + 8))"
    using krg by (simp add: py_getitem_prefix_table)
  have si: "suitable_unit_idx (v * m) = Inr (k + 8)"
    using suitable_unit_idx_eq [OF bd] by (simp add: k_def)
  have cu: "convert_unit v u =
              Inr (v * m / snd (prefix_table ! nat (k + 8)), fst (prefix_table ! nat (k + 8)),
                   snd (prefix_table ! nat (k + 8)) / m)"
    using convert_unit_at [OF assms(1) bd] by (simp add: k_def [symmetric] gi)
  have k3: "3 * k \<le> p" "p + 1 \<le> 3 * k + 3" unfolding k_def by linarith+
  have lo: "py_pow10 (3 * k) \<le> v * m"
    using py_pow10_mono [OF k3(1)] bd(1) by linarith
  have "v * m < py_pow10 (3 * k + 3)"
    using py_pow10_mono [OF k3(2)] bd(2) by linarith
  then have hi: "v * m < py_pow10 (3 * k) * 1000"
    by (simp add: py_pow10_add) (simp add: py_pow10_def)
  have ppos: "0 < py_pow10 (3 * k)" by (rule py_pow10_pos)
  have "1 \<le> v * m / py_pow10 (3 * k)" using lo ppos by (simp add: le_divide_eq)
  moreover have "v * m / py_pow10 (3 * k) < 1000" using hi ppos by (simp add: divide_less_eq mult.commute)
  ultimately show ?thesis
    unfolding Let_def p_def [symmetric] fl using krg si cu sm by simp
qed

text \<open>Claim C2 at 17550 nm: index 6, the entry of \<open>um\<close>.\<close>

theorem convert_unit_in_table_range_witness:
  "map_of prefix_table ''nm'' = Some (1 / 10 ^ 9) \<and>
   py_pow10 (- 24) \<le> 17550 * (1 / 10 ^ 9) \<and> 17550 * (1 / 10 ^ 9) < py_pow10 27 \<and>
   (let idx = \<lfloor>real_of_int \<lfloor>log 10 (17550 * (1 / 10 ^ 9))\<rfloor> / 3\<rfloor> + 8;
        new_entry = prefix_table ! nat idx
    in 0 \<le> idx \<and> idx < 17 \<and> suitable_unit_idx (17550 * (1 / 10 ^ 9)) = Inr idx \<and>
       convert_unit 17550 ''nm'' =
         Inr (17550 * (1 / 10 ^ 9) / snd new_entry, fst new_entry,
              snd new_entry / (1 / 10 ^ 9)) \<and>
       1 \<le> 17550 * (1 / 10 ^ 9) / snd new_entry \<and>
       17550 * (1 / 10 ^ 9) / snd new_entry < 1000)"
proof -
  have h2: "py_pow10 (- 24) \<le> 17550 * (1 / 10 ^ 9)" by (simp add: py_pow10_def)
  have h3: "17550 * (1 / 10 ^ 9) < py_pow10 27" by (simp add: py_pow10_def)
  from convert_unit_in_table_range [OF map_of_nm h2 h3] map_of_nm h2 h3
  show ?thesis by blast
qed

text \<open>
  The sentinel at work: 2.5 px are treated as 2.5 um and come back as px.
\<close>

lemma convert_unit_px_example: "convert_unit 2.5 ''px'' = Inr (2.5, ''px'', 1)"
proof -
  have "convert_unit 2.5 ''um'' =
          (case py_getitem prefix_table (- 6 div 3 + 8) of
             Inl e \<Rightarrow> Inl e
           | Inr new_entry \<Rightarrow>
               Inr (2.5 * py_pow10 (- 6) / snd new_entry, fst new_entry,
                    snd new_entry / py_pow10 (- 6)))"
    by (rule convert_unit_at [OF map_of_um]) (simp_all add: py_pow10_def)
  then have "convert_unit 2.5 ''um'' = Inr (2.5, ''um'', 1)" by (simp add: table_eval)
  then show ?thesis by (simp add: convert_unit_px_um)
qed

text \<open>
  Claim C3: the error behaviour. The unit that the table lookup sees is the argument, or
  \<^verbatim>\<open>um\<close> when the argument is the sentinel \<^verbatim>\<open>px\<close>. When that unit is in the table and
  the value is not positive, the call fails with a domain error: the logarithm is
  \<^verbatim>\<open>-inf\<close> or \<^verbatim>\<open>nan\<close>, on which \<^verbatim>\<open>int\<close> raises \<^verbatim>\<open>OverflowError\<close> or
  \<^verbatim>\<open>ValueError\<close>. When that unit is not in the table, the call fails with a lookup error,
  the \<^verbatim>\<open>TypeError\<close> of indexing the table with \<^verbatim>\<open>None\<close>, whatever the value. No result
  is returned in either case.
\<close>

theorem convert_unit_errors:
  "(v \<le> 0 \<and> recognized (if u = ''px'' then ''um'' else u) \<longrightarrow>
      convert_unit v u = Inl OverflowError \<or> convert_unit v u = Inl ValueError) \<and>
   (\<not> recognized (if u' = ''px'' then ''um'' else u') \<longrightarrow>
      convert_unit v' u' = Inl TypeError)"
proof (intro conjI impI)
  assume a: "v \<le> 0 \<and> recognized (if u = ''px'' then ''um'' else u)"
  have "convert_unit v u = Inl (if v = 0 then OverflowError else ValueError)"
  proof (cases "u = ''px''")
    case True
    then show ?thesis
      using a by (simp add: convert_unit_px_um convert_unit_nonpositive [OF map_of_um])
  next
    case False
    with a obtain m where "map_of prefix_table u = Some m"
      by (auto simp: recognized_map_of)
    then show ?thesis using a by (simp add: convert_unit_nonpositive)
  qed
  then show "convert_unit v u = Inl OverflowError \<or> convert_unit v u = Inl ValueError"
    by (cases "v = 0") simp_all
next
  assume n: "\<not> recognized (if u' = ''px'' then ''um'' else u')"
  have "recognized ''um''" by (simp add: recognized_iff)
  with n have "u' \<noteq> ''px''" "\<not> recognized u'" by (auto split: if_splits)
  then show "convert_unit v' u' = Inl TypeError"
    by (simp add: convert_unit_unrecognized)
qed

text \<open>
  Claim C3 at \<open>-2\<close> nm, where the logarithm is \<^verbatim>\<open>nan\<close>, and at the unit \<^verbatim>\<open>inch\<close>.
\<close>

theorem convert_unit_errors_witness:
  "((- 2 :: real) \<le> 0 \<and> recognized ''nm'' \<and> convert_unit (- 2) ''nm'' = Inl ValueError) \<and>
   (\<not> recognized ''inch'' \<and> convert_unit 1 ''inch'' = Inl TypeError)"
proof -
  have ne: "convert_unit (- 2) ''nm'' \<noteq> Inl OverflowError"
    by (simp add: convert_unit_nonpositive [OF map_of_nm])
  show ?thesis
    using convert_unit_errors [of "- 2" "''nm''" "''inch''" 1] ne
    by (simp add: recognized_iff)
qed

text \<open>
  The same at 0 px, where the logarithm is \<^verbatim>\<open>-inf\<close>.
\<close>

lemma convert_unit_zero_px: "convert_unit 0 ''px'' = Inl OverflowError"
  by (simp add: convert_unit_px_um convert_unit_nonpositive [OF map_of_um])

text \<open>
  Claim C4: the documented example. \<^verbatim>\<open>convert_unit(17.55e3, 'nm')\<close> returns the value
  17.55, the unit \<^verbatim>\<open>um\<close> and the factor 1000.
\<close>

theorem convert_unit_documented_example:
  "convert_unit (17.55 * 10 ^ 3) ''nm'' = Inr (17.55, ''um'', 1000)"
proof -
  have "convert_unit (17.55 * 10 ^ 3) ''nm'' =
          (case py_getitem prefix_table (- 5 div 3 + 8) of
             Inl e \<Rightarrow> Inl e
           | Inr new_entry \<Rightarrow>
               Inr (17.55 * 10 ^ 3 * (1 / 10 ^ 9) / snd new_entry, fst new_entry,
                    snd new_entry / (1 / 10 ^ 9)))"
    by (rule convert_unit_at [OF map_of_nm]) (simp_all add: py_pow10_def)
  then show ?thesis by (simp add: table_eval)
qed

text \<open>
  The second example of the docstring, \<^verbatim>\<open>convert_unit(17.55 * 1e-3, 'mm')\<close>, which
  prints \<^verbatim>\<open>17.55 um 0.001\<close>.
\<close>

lemma convert_unit_second_documented_example:
  "convert_unit (17.55 * (1 / 10 ^ 3)) ''mm'' = Inr (17.55, ''um'', 0.001)"
proof -
  have "convert_unit (17.55 * (1 / 10 ^ 3)) ''mm'' =
          (case py_getitem prefix_table (- 5 div 3 + 8) of
             Inl e \<Rightarrow> Inl e
           | Inr new_entry \<Rightarrow>
               Inr (17.55 * (1 / 10 ^ 3) * (1 / 10 ^ 3) / snd new_entry, fst new_entry,
                    snd new_entry / (1 / 10 ^ 3)))"
    by (rule convert_unit_at [OF map_of_mm]) (simp_all add: py_pow10_def)
  then show ?thesis by (simp add: table_eval)
qed


text \<open>
  Claim C10: the index is not guarded. There is a positive value in a recognized unit,
  below \<open>10^-24\<close> metres, for which the index is negative and the call returns all the
  same: \<open>new_value\<close> is outside \<open>[1, 1000)\<close> and \<open>new_unit\<close> is the entry that the
  negative index selects from the end of the table (here \<^verbatim>\<open>Ym\<close>). And there is a positive
  value, at or above \<open>10^27\<close> metres, for which the lookup raises \<^verbatim>\<open>IndexError\<close>.
\<close>

theorem convert_unit_unguarded_index:
  "(\<exists>v u m idx new_value new_unit factor.
      0 < v \<and> map_of prefix_table u = Some m \<and> v * m < py_pow10 (- 24) \<and>
      suitable_unit_idx (v * m) = Inr idx \<and> idx < 0 \<and>
      convert_unit v u = Inr (new_value, new_unit, factor) \<and>
      \<not> (1 \<le> new_value \<and> new_value < 1000) \<and>
      new_unit = fst (prefix_table ! nat (17 + idx)) \<and> new_unit = ''Ym'') \<and>
   (\<exists>v u m.
      0 < v \<and> map_of prefix_table u = Some m \<and> py_pow10 27 \<le> v * m \<and>
      convert_unit v u = Inl IndexError)"
proof (intro conjI)
  have bd: "py_pow10 (- 27) \<le> 5 / 10 ^ 27 * 1" "5 / 10 ^ 27 * 1 < py_pow10 (- 27 + 1)"
    by (simp_all add: py_pow10_def)
  have idx: "suitable_unit_idx (5 / 10 ^ 27 * 1) = Inr (- 1)"
    using suitable_unit_idx_eq [OF bd] by simp
  have "convert_unit (5 / 10 ^ 27) ''m'' =
          (case py_getitem prefix_table (- 27 div 3 + 8) of
             Inl e \<Rightarrow> Inl e
           | Inr new_entry \<Rightarrow>
               Inr (5 / 10 ^ 27 * 1 / snd new_entry, fst new_entry, snd new_entry / 1))"
    by (rule convert_unit_at [OF map_of_m bd])
  then have cu: "convert_unit (5 / 10 ^ 27) ''m'' = Inr (5 / 10 ^ 51, ''Ym'', 10 ^ 24)"
    by (simp add: table_eval)
  have nm: "''Ym'' = fst (prefix_table ! nat (17 + (- 1)))"
    by (simp add: table_eval)
  have "(0::real) < 5 / 10 ^ 27 \<and> map_of prefix_table ''m'' = Some 1 \<and>
        5 / 10 ^ 27 * 1 < py_pow10 (- 24) \<and>
        suitable_unit_idx (5 / 10 ^ 27 * 1) = Inr (- 1) \<and> (- 1 :: int) < 0 \<and>
        convert_unit (5 / 10 ^ 27) ''m'' = Inr (5 / 10 ^ 51, ''Ym'', 10 ^ 24) \<and>
        \<not> (1 \<le> (5 / 10 ^ 51 :: real) \<and> (5 / 10 ^ 51 :: real) < 1000) \<and>
        ''Ym'' = fst (prefix_table ! nat (17 + (- 1))) \<and> ''Ym'' = ''Ym''"
    using idx cu nm map_of_m by (simp add: py_pow10_def)
  then show "\<exists>v u m idx new_value new_unit factor.
      0 < v \<and> map_of prefix_table u = Some m \<and> v * m < py_pow10 (- 24) \<and>
      suitable_unit_idx (v * m) = Inr idx \<and> idx < 0 \<and>
      convert_unit v u = Inr (new_value, new_unit, factor) \<and>
      \<not> (1 \<le> new_value \<and> new_value < 1000) \<and>
      new_unit = fst (prefix_table ! nat (17 + idx)) \<and> new_unit = ''Ym''"
    by blast
next
  have "convert_unit (5 * 10 ^ 27) ''m'' = Inl IndexError"
    by (rule convert_unit_out_of_range [OF map_of_m]) (simp_all add: py_pow10_def)
  moreover have "(0::real) < 5 * 10 ^ 27" "py_pow10 27 \<le> 5 * 10 ^ 27 * 1"
    by (simp_all add: py_pow10_def)
  ultimately show "\<exists>v u m.
      0 < v \<and> map_of prefix_table u = Some m \<and> py_pow10 27 \<le> v * m \<and>
      convert_unit v u = Inl IndexError"
    using map_of_m by blast
qed

section \<open>Properties of the scalebar\<close>

lemma good_value_idx_ok: "\<exists>i. good_value_idx w = Inr (int i) \<and> i < length good_values"
proof -
  define difference where "difference = map (\<lambda>g. \<bar>w - real_of_int g\<bar>) good_values"
  define bs where "bs = map (\<lambda>d. d = Min (set difference)) difference"
  have ne: "difference \<noteq> []" by (simp add: difference_def good_values_def)
  then have "Min (set difference) \<in> set difference" by simp
  then obtain j where j: "j < length difference" "difference ! j = Min (set difference)"
    by (auto simp: in_set_conv_nth)
  then have "j \<in> set (filter (\<lambda>i. bs ! i) [0..<length bs])" by (simp add: bs_def)
  then have "filter (\<lambda>i. bs ! i) [0..<length bs] \<noteq> []"
    by (metis empty_iff empty_set)
  then obtain i0 rest where ir: "filter (\<lambda>i. bs ! i) [0..<length bs] = i0 # rest"
    by (cases "filter (\<lambda>i. bs ! i) [0..<length bs]") simp_all
  then have "i0 \<in> set (filter (\<lambda>i. bs ! i) [0..<length bs])" by simp
  then have "i0 < length good_values" by (simp add: bs_def difference_def)
  moreover have "py_getitem (np_where bs) 0 = Inr (int i0)"
    by (simp add: py_getitem_def np_where_def ir)
  ultimately show ?thesis
    unfolding good_value_idx_def Let_def difference_def [symmetric] bs_def [symmetric] by blast
qed

lemma good_value_idx_30: "good_value_idx 30 = Inr 6"
  by (simp add: good_value_idx_def good_values_def np_where_def py_getitem_def Let_def)

lemma convert_unit_003_mm: "convert_unit (3 / 100) ''mm'' = Inr (30, ''um'', 1 / 1000)"
proof -
  have "convert_unit (3 / 100) ''mm'' =
          (case py_getitem prefix_table (- 5 div 3 + 8) of
             Inl e \<Rightarrow> Inl e
           | Inr new_entry \<Rightarrow>
               Inr (3 / 100 * (1 / 10 ^ 3) / snd new_entry, fst new_entry,
                    snd new_entry / (1 / 10 ^ 3)))"
    by (rule convert_unit_at [OF map_of_mm]) (simp_all add: py_pow10_def)
  then show ?thesis by (simp add: table_eval)
qed

text \<open>
  A map 200 pixels wide with a step of 0.0015 mm: the width 0.025 is not an integer, and
  the label pairs it with the unit of the converted width.
\<close>

lemma add_scalebar_example:
  "add_scalebar \<lparr>shape = (100, 200), step_size_x = 0.0015, scan_unit = ''mm''\<rparr> =
     Inr (\<lparr>size_px = Finite (50 / 3), label_width = PyFloat 0.025,
            label_unit = [CHR 0xCE, CHR 0xBC, CHR ''m'']\<rparr>, [UserWarning 0.025])"
proof -
  have fl: "\<lfloor>1 / 40 :: real\<rfloor> = 0" by simp
  have ni: "\<not> is_integer (1 / 40)" unfolding is_integer_def fl by simp
  show ?thesis
    by (simp add: add_scalebar_def convert_unit_003_mm good_value_idx_30 py_getitem_def
        good_values_def np_true_divide_def ni Let_def)
qed

text \<open>
  The same map with a step of 1.5 um: the initial width is 30 um, the factor is 1 and the
  width 25 is an integer, so that no warning is emitted.
\<close>

lemma add_scalebar_integer_example:
  "add_scalebar \<lparr>shape = (100, 200), step_size_x = 1.5, scan_unit = ''um''\<rparr> =
     Inr (\<lparr>size_px = Finite (50 / 3), label_width = PyInt 25,
            label_unit = [CHR 0xCE, CHR 0xBC, CHR ''m'']\<rparr>, [])"
proof -
  have "convert_unit 30 ''um'' =
          (case py_getitem prefix_table (- 5 div 3 + 8) of
             Inl e \<Rightarrow> Inl e
           | Inr new_entry \<Rightarrow>
               Inr (30 * py_pow10 (- 6) / snd new_entry, fst new_entry,
                    snd new_entry / py_pow10 (- 6)))"
    by (rule convert_unit_at [OF map_of_um]) (simp_all add: py_pow10_def)
  then have cu: "convert_unit 30 ''um'' = Inr (30, ''um'', 1)" by (simp add: table_eval)
  show ?thesis
    by (simp add: add_scalebar_def cu good_value_idx_30 py_getitem_def
        good_values_def np_true_divide_def is_integer_def Let_def)
qed

text \<open>
  Claim C9: whenever \<^verbatim>\<open>convert_unit\<close> returns for the initial width, \<^verbatim>\<open>add_scalebar\<close>
  completes and returns a scalebar. The width is the good value chosen times the factor.
  When it is an integer, no warning is emitted and the width shown is the int; when it is
  not, exactly one warning is emitted, which carries the width, and the width shown is
  the float.
\<close>

theorem add_scalebar_integrality:
  assumes "convert_unit (0.1 * real (snd (shape cm)) * step_size_x cm) (scan_unit cm)
             = Inr (initial_width, new_unit, factor)"
  shows "\<exists>bar warnings idx.
           add_scalebar cm = Inr (bar, warnings) \<and>
           good_value_idx initial_width = Inr (int idx) \<and> idx < length good_values \<and>
           (let scalebar_width = real_of_int (good_values ! idx) * factor
            in (is_integer scalebar_width \<longrightarrow>
                  warnings = [] \<and> label_width bar = PyInt \<lfloor>scalebar_width\<rfloor>) \<and>
               (\<not> is_integer scalebar_width \<longrightarrow>
                  warnings = [UserWarning scalebar_width] \<and>
                  label_width bar = PyFloat scalebar_width))"
proof -
  obtain i where i: "good_value_idx initial_width = Inr (int i)" "i < length good_values"
    using good_value_idx_ok by blast
  have g: "py_getitem good_values (int i) = Inr (good_values ! i)"
    using i(2) by (simp add: py_getitem_def)
  have mem: "good_values ! i \<in> set good_values" using i(2) by simp
  define w where "w = real_of_int (good_values ! i) * factor"
  define bar where "bar =
    \<lparr>size_px = np_true_divide w (step_size_x cm),
     label_width = (if is_integer w then PyInt \<lfloor>w\<rfloor> else PyFloat w),
     label_unit = (if new_unit = ''um'' then [CHR 0xCE, CHR 0xBC, CHR ''m''] else new_unit)\<rparr>"
  define warnings where "warnings = (if is_integer w then [] else [UserWarning w])"
  have res: "add_scalebar cm = Inr (bar, warnings)"
    unfolding add_scalebar_def Let_def assms
    by (simp add: i(1) g w_def bar_def warnings_def)
  have br: "let scalebar_width = real_of_int (good_values ! i) * factor
            in (is_integer scalebar_width \<longrightarrow>
                  warnings = [] \<and> label_width bar = PyInt \<lfloor>scalebar_width\<rfloor>) \<and>
               (\<not> is_integer scalebar_width \<longrightarrow>
                  warnings = [UserWarning scalebar_width] \<and>
                  label_width bar = PyFloat scalebar_width)"
    by (simp add: Let_def bar_def warnings_def w_def)
  from res i br show ?thesis by blast
qed

text \<open>
  Claim C9 on a map 200 pixels wide with a step of 0.0015 mm: the initial width is 0.03 mm,
  converted to 30 um with factor 1/1000; the good value is 25 and the width 0.025 is not
  an integer.
\<close>

theorem add_scalebar_integrality_witness:
  "convert_unit
     (0.1 * real (snd (shape \<lparr>shape = (100, 200), step_size_x = 0.0015, scan_unit = ''mm''\<rparr>))
        * step_size_x \<lparr>shape = (100, 200), step_size_x = 0.0015, scan_unit = ''mm''\<rparr>)
     (scan_unit \<lparr>shape = (100, 200), step_size_x = 0.0015, scan_unit = ''mm''\<rparr>)
     = Inr (30, ''um'', 1 / 1000) \<and>
   (\<exists>bar warnings.
      add_scalebar \<lparr>shape = (100, 200), step_size_x = 0.0015, scan_unit = ''mm''\<rparr>
        = Inr (bar, warnings) \<and>
      warnings = [UserWarning (1 / 40)] \<and> label_width bar = PyFloat (1 / 40))"
proof -
  let ?cm = "\<lparr>shape = (100, 200), step_size_x = 0.0015, scan_unit = ''mm''\<rparr>"
  have h: "convert_unit (0.1 * real (snd (shape ?cm)) * step_size_x ?cm) (scan_unit ?cm)
             = Inr (30, ''um'', 1 / 1000)"
    by (simp add: convert_unit_003_mm)
  have fl: "\<lfloor>1 / 40 :: real\<rfloor> = 0" by simp
  have ni: "\<not> is_integer (1 / 40)" unfolding is_integer_def fl by simp
  from add_scalebar_integrality [OF h] obtain bar warnings idx where r:
    "add_scalebar ?cm = Inr (bar, warnings)" "good_value_idx 30 = Inr (int idx)"
    "let scalebar_width = real_of_int (good_values ! idx) * (1 / 1000)
     in (is_integer scalebar_width \<longrightarrow>
           warnings = [] \<and> label_width bar = PyInt \<lfloor>scalebar_width\<rfloor>) \<and>
        (\<not> is_integer scalebar_width \<longrightarrow>
           warnings = [UserWarning scalebar_width] \<and>
           label_width bar = PyFloat scalebar_width)"
    by blast
  from r(2) have "idx = 6" by (simp add: good_value_idx_30)
  with r(3) ni have "warnings = [UserWarning (1 / 40)] \<and> label_width bar = PyFloat (1 / 40)"
    by (simp add: good_values_def Let_def)
  with h r(1) show ?thesis by blast
qed

section \<open>Properties of \<^verbatim>\<open>set_symmetry\<close>\<close>

lemma reduce_Some: "G \<noteq> [] \<Longrightarrow> \<exists>r. reduce compose canonical G q = Some r"
  by (cases G) (simp_all add: reduce_def del: split_paired_Ex)

lemma those_map_Some:
  "(\<And>x. x \<in> set xs \<Longrightarrow> \<exists>y. f x = Some y) \<Longrightarrow> \<exists>ys. those (map f xs) = Some ys \<and> length ys = length xs"
proof (induction xs)
  case Nil
  then show ?case by simp
next
  case (Cons x xs)
  then obtain y ys where "f x = Some y" "those (map f xs) = Some ys" "length ys = length xs"
    by (metis list.set_intros(1,2))
  then show ?case by simp
qed

lemma reduce_two_fold_example:
  "reduce hamilton id [(1, 0, 0, 0), (0, 0, 0, 1)] (0.6088, 0, 0, 0.7934)
     = Some (- 0.7934, 0, 0, 0.6088)"
  by (simp add: reduce_def hamilton_def scalar_part_def)

text \<open>
  Claim C8: \<^verbatim>\<open>set_symmetry\<close> does not mutate its input. For every orientation, at an
  address \<open>a\<close> of the store, and every group that is not empty, the call returns the address
  of a new object: it differs from \<open>a\<close> and was not in use before. Every object that
  was in the store is unchanged, the input orientation among them, and the new object
  carries the group and as many rotations as the input. This holds for every composition
  and every sign convention.
\<close>

theorem set_symmetry_new_object:
  assumes "a < length heap" and "G \<noteq> []"
  shows "\<exists>a' heap'.
           set_symmetry compose canonical heap a G = Some (a', heap') \<and>
           a' \<noteq> a \<and> a' = length heap \<and> length heap' = Suc (length heap) \<and>
           take (length heap) heap' = heap \<and> heap' ! a = heap ! a \<and>
           symmetry (heap' ! a') = G \<and>
           length (data (heap' ! a')) = length (data (heap ! a))"
proof -
  obtain reduced where r: "those (map (reduce compose canonical G) (data (heap ! a))) = Some reduced"
    "length reduced = length (data (heap ! a))"
    using those_map_Some [of "data (heap ! a)" "reduce compose canonical G"]
      reduce_Some [OF assms(2)] by metis
  have "set_symmetry compose canonical heap a G
          = Some (length heap, heap @ [\<lparr>data = reduced, symmetry = G\<rparr>])"
    using assms(1) by (simp add: set_symmetry_def r(1))
  moreover have "(heap @ [\<lparr>data = reduced, symmetry = G\<rparr>]) ! a = heap ! a"
    using assms(1) by (simp add: nth_append)
  ultimately show ?thesis using assms(1) r(2) by simp
qed

text \<open>
  Claim C8 on a store that holds the single orientation \<open>(0.6088, 0, 0, 0.7934)\<close>, reduced
  under the group of the two-fold rotation about \<open>z\<close>.
\<close>

theorem set_symmetry_new_object_witness:
  "(0::nat) < length [\<lparr>data = [(0.6088, 0, 0, 0.7934)], symmetry = [(1, 0, 0, 0)]\<rparr>] \<and>
   [(1, 0, 0, 0), (0, 0, 0, 1)] \<noteq> ([] :: quaternion list) \<and>
   (\<exists>heap'.
      set_symmetry hamilton id
        [\<lparr>data = [(0.6088, 0, 0, 0.7934)], symmetry = [(1, 0, 0, 0)]\<rparr>] 0
        [(1, 0, 0, 0), (0, 0, 0, 1)] = Some (1, heap') \<and>
      heap' ! 0 = \<lparr>data = [(0.6088, 0, 0, 0.7934)], symmetry = [(1, 0, 0, 0)]\<rparr> \<and>
      symmetry (heap' ! 1) = [(1, 0, 0, 0), (0, 0, 0, 1)])"
  using set_symmetry_new_object
    [of 0 "[\<lparr>data = [(0.6088, 0, 0, 0.7934)], symmetry = [(1, 0, 0, 0)]\<rparr>]"
        "[(1, 0, 0, 0), (0, 0, 0, 1)]" hamilton id]
  by auto

end
